theory Spec2Isabelle
  imports Complex_Main
begin

section \<open>The boiler calculation module (lib/boilerModel.ts)\<close>

text \<open>
  The module is a straight-line pipeline
  \<open>furnace \<rightarrow> heatTransfer \<rightarrow> steamGeneration \<rightarrow> generateFlueGases\<close>, assembled by
  \<open>boiler\<close>. It has no state, no loop and no \<open>throw\<close>; its only data are plain
  objects of numbers, strings and one boolean.
\<close>

subsection \<open>Numbers\<close>

text \<open>
  A TypeScript \<open>number\<close> is a binary64 value: finite, \<open>Infinity\<close>, \<open>-Infinity\<close> or \<open>NaN\<close>.
  A finite value is carried as the real it denotes. Every arithmetic operation computes the
  exact real result and rounds it to binary64 (\<open>rnd\<close>): to the nearest value with a
  53-bit significand, ties to the even significand, with gradual underflow below
  \<open>2^-1022\<close> and overflow to an infinity from \<open>2^1024\<close>. The type holds every real, of which
  the binary64 values are those that \<open>rnd\<close> leaves unchanged; a statement for every
  \<open>number\<close> therefore covers every binary64 input. The sign of a zero is not modelled
  (\<open>-0\<close> and \<open>+0\<close> are equal under \<open>===\<close>).
\<close>

datatype number = Fin real | PInf | NInf | NaN

text \<open>The infinity with the sign of \<open>s\<close>; \<open>NaN\<close> when \<open>s\<close> is zero.\<close>

definition signed_inf :: "real \<Rightarrow> number" where
  "signed_inf s = (if 0 < s then PInf else if s < 0 then NInf else NaN)"

text \<open>\<open>2^j\<close> for an integer \<open>j\<close>.\<close>

definition pow2 :: "int \<Rightarrow> real" where
  "pow2 j = (if 0 \<le> j then 2 ^ nat j else 1 / 2 ^ nat (- j))"

text \<open>The nearest integer, a tie going to the even one.\<close>

definition round_even :: "real \<Rightarrow> int" where
  "round_even r =
     (let f = \<lfloor>r\<rfloor>; d = r - of_int f
      in if d < 1 / 2 then f else if 1 / 2 < d then f + 1 else if even f then f else f + 1)"

text \<open>
  The binary exponent of \<open>x\<close>, not below that of the smallest normal value, and the unit
  in the last place of the 53-bit significand at that exponent.
\<close>

definition exponent :: "real \<Rightarrow> int" where
  "exponent x = max \<lfloor>log 2 \<bar>x\<bar>\<rfloor> (- 1022)"

definition ulp :: "real \<Rightarrow> real" where
  "ulp x = pow2 (exponent x - 52)"

text \<open>Rounding of an exact result to binary64.\<close>

definition rnd :: "real \<Rightarrow> number" where
  "rnd x =
     (let y = of_int (round_even (x / ulp x)) * ulp x
      in if pow2 1024 \<le> \<bar>y\<bar> then signed_inf x else Fin y)"

text \<open>A decimal literal of the source denotes the binary64 value nearest to it.\<close>

definition literal :: "real \<Rightarrow> number" where
  "literal d = rnd d"

text \<open>\<open>a + b\<close>\<close>

fun num_add :: "number \<Rightarrow> number \<Rightarrow> number" where
  "num_add (Fin x) (Fin y) = rnd (x + y)"
| "num_add (Fin x) PInf = PInf"
| "num_add (Fin x) NInf = NInf"
| "num_add PInf (Fin y) = PInf"
| "num_add PInf PInf = PInf"
| "num_add PInf NInf = NaN"
| "num_add NInf (Fin y) = NInf"
| "num_add NInf PInf = NaN"
| "num_add NInf NInf = NInf"
| "num_add NaN b = NaN"
| "num_add a NaN = NaN"

text \<open>\<open>a - b\<close>\<close>

fun num_sub :: "number \<Rightarrow> number \<Rightarrow> number" where
  "num_sub (Fin x) (Fin y) = rnd (x - y)"
| "num_sub (Fin x) PInf = NInf"
| "num_sub (Fin x) NInf = PInf"
| "num_sub PInf (Fin y) = PInf"
| "num_sub PInf PInf = NaN"
| "num_sub PInf NInf = PInf"
| "num_sub NInf (Fin y) = NInf"
| "num_sub NInf PInf = NInf"
| "num_sub NInf NInf = NaN"
| "num_sub NaN b = NaN"
| "num_sub a NaN = NaN"

text \<open>\<open>a * b\<close>: an infinity times zero is \<open>NaN\<close>.\<close>

fun num_mul :: "number \<Rightarrow> number \<Rightarrow> number" where
  "num_mul (Fin x) (Fin y) = rnd (x * y)"
| "num_mul (Fin x) PInf = signed_inf x"
| "num_mul (Fin x) NInf = signed_inf (- x)"
| "num_mul PInf (Fin y) = signed_inf y"
| "num_mul PInf PInf = PInf"
| "num_mul PInf NInf = NInf"
| "num_mul NInf (Fin y) = signed_inf (- y)"
| "num_mul NInf PInf = NInf"
| "num_mul NInf NInf = PInf"
| "num_mul NaN b = NaN"
| "num_mul a NaN = NaN"

text \<open>
  \<open>a / b\<close>. A finite value over zero is the infinity of its sign, and \<open>0 / 0\<close> is
  \<open>NaN\<close>: nothing is thrown. The zero divisor is taken as \<open>+0\<close>: the module's only
  divisor is \<open>sensibleHeat + latentHeat\<close>, a sum is \<open>-0\<close> only when both terms are, and
  \<open>latentHeat\<close>, a difference from \<open>970\<close>, never is.
\<close>

fun num_div :: "number \<Rightarrow> number \<Rightarrow> number" where
  "num_div (Fin x) (Fin y) = (if y = 0 then signed_inf x else rnd (x / y))"
| "num_div (Fin x) PInf = Fin 0"
| "num_div (Fin x) NInf = Fin 0"
| "num_div PInf (Fin y) = (if y < 0 then NInf else PInf)"
| "num_div PInf PInf = NaN"
| "num_div PInf NInf = NaN"
| "num_div NInf (Fin y) = (if y < 0 then PInf else NInf)"
| "num_div NInf PInf = NaN"
| "num_div NInf NInf = NaN"
| "num_div NaN b = NaN"
| "num_div a NaN = NaN"



text \<open>A value that is not negative and not \<open>NaN\<close>: finite and at least zero, or \<open>Infinity\<close>.\<close>

fun nonneg_num :: "number \<Rightarrow> bool" where
  "nonneg_num (Fin x) = (0 \<le> x)"
| "nonneg_num PInf = True"
| "nonneg_num NInf = False"
| "nonneg_num NaN = False"




text \<open>
  A value is written \<open>\<approx> d\<close>, with \<open>d\<close> a decimal of two places, when it is finite and
  rounds to \<open>d\<close>: it is at most \<open>0.005\<close> away.
\<close>

fun agrees_to_2dp :: "number \<Rightarrow> real \<Rightarrow> bool" where
  "agrees_to_2dp (Fin x) d = (\<bar>x - d\<bar> \<le> 0.005)"
| "agrees_to_2dp PInf d = False"
| "agrees_to_2dp NInf d = False"
| "agrees_to_2dp NaN d = False"

text \<open>\<open>Math.PI\<close> is the binary64 constant nearest to \<open>\<pi>\<close>.\<close>

definition Math_PI :: number where
  "Math_PI = literal 3.141592653589793"

subsection \<open>Interfaces\<close>

text \<open>An object \<open>{ [key: string]: number }\<close>, with its keys in insertion order.\<close>

type_synonym num_dict = "(string \<times> number) list"

record Fuel =
  type :: string
  quantity :: number
  heatContent :: number

record Water =
  quantity :: number
  temperature :: number

record Air =
  quantity :: number
  temperature :: number

record ControlSettings =
  pressure :: number
  temperature :: number

record Steam =
  flowRate :: number
  pressure :: number
  temperature :: number

record FlueGases =
  volume :: number
  temp :: number
  composition :: num_dict

record BoilerOutput =
  steam :: Steam
  flueGases :: FlueGases
  wasteHeat :: number
  emissions :: num_dict

text \<open>
  The object type \<open>{ min: number; max: number }\<close> of three fields of the parameters. Its
  fields are \<open>min_bound\<close> and \<open>max_bound\<close> here, and the \<open>length\<close> of a tube configuration
  is \<open>length_tube\<close>: \<open>min\<close>, \<open>max\<close> and \<open>length\<close> are constants of the library. Fields of
  the same name in different interfaces are told apart by the interface:
  \<open>Fuel.quantity\<close>, \<open>Air.quantity\<close>.
\<close>

record MinMax =
  min_bound :: number
  max_bound :: number

record FurnaceDesign =
  corrugated :: bool
  type :: string

record TubeConfig =
  numTubes :: number
  diameter :: number
  length_tube :: number

record Refractory =
  thermalConductivity :: number
  maxTemp :: number

record BoilerParams =
  efficiency :: number
  horsepower :: MinMax
  steamOutput :: MinMax
  pressure :: MinMax
  furnaceDesign :: FurnaceDesign
  tubeConfig :: TubeConfig
  refractory :: Refractory
  heatTransferCoeff :: number

text \<open>The anonymous result types of \<open>furnace\<close>, \<open>heatTransfer\<close> and \<open>generateFlueGases\<close>.\<close>

record FurnaceResult =
  energy :: number
  flueGases :: FlueGases

record CooledFlueGases =
  volume :: number
  temp :: number

record HeatTransferResult =
  heatTransferred :: number
  flueGases :: CooledFlueGases

record FlueGasesResult =
  flueGases :: FlueGases
  emissions :: num_dict

definition defaultParams :: BoilerParams where
  "defaultParams =
     \<lparr> BoilerParams.efficiency = literal 0.9,
       BoilerParams.horsepower = \<lparr> MinMax.min_bound = Fin 50, MinMax.max_bound = Fin 2500 \<rparr>,
       BoilerParams.steamOutput = \<lparr> MinMax.min_bound = Fin 1725, MinMax.max_bound = Fin 86250 \<rparr>,
       BoilerParams.pressure = \<lparr> MinMax.min_bound = Fin 15, MinMax.max_bound = Fin 350 \<rparr>,
       BoilerParams.furnaceDesign =
         \<lparr> FurnaceDesign.corrugated = True, FurnaceDesign.type = ''wet-back'' \<rparr>,
       BoilerParams.tubeConfig =
         \<lparr> TubeConfig.numTubes = Fin 100, TubeConfig.diameter = Fin 2,
           TubeConfig.length_tube = Fin 10 \<rparr>,
       BoilerParams.refractory =
         \<lparr> Refractory.thermalConductivity = literal 0.5, Refractory.maxTemp = Fin 1200 \<rparr>,
       BoilerParams.heatTransferCoeff = Fin 50 \<rparr>"

subsection \<open>Helper functions\<close>

definition calculateFlueGasVolume :: "Fuel \<Rightarrow> Air \<Rightarrow> number" where
  "calculateFlueGasVolume fuel air = num_mul (Air.quantity air) (literal 0.9)"

definition calculateFlueGasComposition :: "Fuel \<Rightarrow> Air \<Rightarrow> num_dict" where
  "calculateFlueGasComposition fuel air =
     [(''CO2'', Fin 10), (''H2O'', Fin 15), (''O2'', Fin 5), (''N2'', Fin 70)]"

definition calculateTubeSurfaceArea :: "TubeConfig \<Rightarrow> number" where
  "calculateTubeSurfaceArea tc =
     num_mul (num_mul (num_mul Math_PI (TubeConfig.diameter tc)) (TubeConfig.length_tube tc))
       (TubeConfig.numTubes tc)"

definition calculateSteamTemp :: "number \<Rightarrow> number" where
  "calculateSteamTemp p = num_add (Fin 212) (num_mul p (literal 1.7))"

definition getLatentHeat :: "number \<Rightarrow> number" where
  "getLatentHeat p = num_sub (Fin 970) (num_mul p (literal 0.5))"

definition calculateSensibleHeat :: "number \<Rightarrow> number \<Rightarrow> number" where
  "calculateSensibleHeat inletTemp steamTemp =
     num_sub steamTemp (num_add (num_mul inletTemp (literal 1.8)) (Fin 32))"

definition calculateEmissions :: "string \<Rightarrow> num_dict" where
  "calculateEmissions fuelType = [(''CO'', Fin 100), (''NOx'', Fin 50)]"

subsection \<open>The four stages\<close>

text \<open>
  A parameter or local constant of the source whose name is also a field name carries a
  prime here (\<open>energy'\<close> is the source's \<open>energy\<close>): a field name is a constant of the
  theory and cannot be bound.
\<close>

definition furnace :: "Fuel \<Rightarrow> Air \<Rightarrow> FurnaceResult" where
  "furnace fuel air =
     (let energy' = num_mul (Fuel.quantity fuel) (Fuel.heatContent fuel);
          flueGasTemp = Fin 1100;
          flueGasVolume = calculateFlueGasVolume fuel air;
          flueGasComposition = calculateFlueGasComposition fuel air
      in \<lparr> FurnaceResult.energy = energy',
           FurnaceResult.flueGases =
             \<lparr> FlueGases.volume = flueGasVolume, FlueGases.temp = flueGasTemp,
               FlueGases.composition = flueGasComposition \<rparr> \<rparr>)"

text \<open>
  \<open>tubeSurfaceArea\<close>, \<open>furnaceFactor\<close> and \<open>wetBackFactor\<close> are computed and never read,
  as in the source.
\<close>

definition heatTransfer ::
  "number \<Rightarrow> FlueGases \<Rightarrow> Water \<Rightarrow> TubeConfig \<Rightarrow> number \<Rightarrow> FurnaceDesign
     \<Rightarrow> HeatTransferResult" where
  "heatTransfer combustionEnergy flueGases' water tubeConfig' heatTransferCoeff' furnaceDesign' =
     (let tubeSurfaceArea = calculateTubeSurfaceArea tubeConfig';
          furnaceFactor = (if FurnaceDesign.corrugated furnaceDesign' then literal 1.1 else literal 1.0);
          wetBackFactor =
            (if FurnaceDesign.type furnaceDesign' = ''wet-back'' then literal 1.05 else literal 1.0);
          heatTransferred' = num_mul combustionEnergy (literal 0.9);
          flueGasExitTemp = Fin 180
      in \<lparr> HeatTransferResult.heatTransferred = heatTransferred',
           HeatTransferResult.flueGases =
             \<lparr> CooledFlueGases.volume = FlueGases.volume flueGases',
               CooledFlueGases.temp = flueGasExitTemp \<rparr> \<rparr>)"

text \<open>The fourth argument, the source's \<open>pressure\<close>, is not read by the body.\<close>

definition steamGeneration :: "number \<Rightarrow> Water \<Rightarrow> ControlSettings \<Rightarrow> number \<Rightarrow> Steam" where
  "steamGeneration heatTransferred' water controlSettings pressure' =
     (let targetPressure = ControlSettings.pressure controlSettings;
          steamTemp = calculateSteamTemp targetPressure;
          latentHeat = getLatentHeat targetPressure;
          sensibleHeat = calculateSensibleHeat (Water.temperature water) steamTemp;
          totalHeatPerLb = num_add sensibleHeat latentHeat;
          steamOutput' = num_div heatTransferred' totalHeatPerLb
      in \<lparr> Steam.flowRate = steamOutput', Steam.pressure = targetPressure,
           Steam.temperature = steamTemp \<rparr>)"

definition generateFlueGases :: "number \<Rightarrow> Fuel \<Rightarrow> Air \<Rightarrow> FlueGases \<Rightarrow> FlueGasesResult" where
  "generateFlueGases combustionEnergy fuel air flueGasesFromFurnace =
     (let flueGasVolume = FlueGases.volume flueGasesFromFurnace;
          flueGasTemp = Fin 180;
          composition' = FlueGases.composition flueGasesFromFurnace;
          emissions' = calculateEmissions (Fuel.type fuel)
      in \<lparr> FlueGasesResult.flueGases =
             \<lparr> FlueGases.volume = flueGasVolume, FlueGases.temp = flueGasTemp,
               FlueGases.composition = composition' \<rparr>,
           FlueGasesResult.emissions = emissions' \<rparr>)"

subsection \<open>The main function\<close>

text \<open>
  \<open>params\<close> is optional: \<open>None\<close> is the call that omits it, and takes \<open>defaultParams\<close>.
  The two destructuring declarations read the fields of the results \<open>fr\<close>, \<open>ht\<close> and
  \<open>fg\<close>. \<open>cooledFlueGases\<close> and \<open>usableHeat\<close> are bound and never read, as in the source.
\<close>

definition boiler ::
  "Fuel \<Rightarrow> Water \<Rightarrow> Air \<Rightarrow> number \<Rightarrow> ControlSettings \<Rightarrow> BoilerParams option
     \<Rightarrow> BoilerOutput" where
  "boiler fuel water air electricity controlSettings params_arg =
     (let params = (case params_arg of None \<Rightarrow> defaultParams | Some p \<Rightarrow> p);
          fr = furnace fuel air;
          energy' = FurnaceResult.energy fr;
          initialFlueGases = FurnaceResult.flueGases fr;
          ht = heatTransfer energy' initialFlueGases water (BoilerParams.tubeConfig params)
                 (BoilerParams.heatTransferCoeff params) (BoilerParams.furnaceDesign params);
          heatTransferred' = HeatTransferResult.heatTransferred ht;
          cooledFlueGases = HeatTransferResult.flueGases ht;
          steam' = steamGeneration heatTransferred' water controlSettings
                     (MinMax.min_bound (BoilerParams.pressure params));
          fg = generateFlueGases energy' fuel air initialFlueGases;
          flueGases' = FlueGasesResult.flueGases fg;
          emissions' = FlueGasesResult.emissions fg;
          usableHeat = num_mul energy' (BoilerParams.efficiency params);
          wasteHeat' = num_mul energy' (num_sub (Fin 1) (BoilerParams.efficiency params))
      in \<lparr> BoilerOutput.steam = steam', BoilerOutput.flueGases = flueGases',
           BoilerOutput.wasteHeat = wasteHeat', BoilerOutput.emissions = emissions' \<rparr>)"

text \<open>The inputs of Scenario A: the defaults of the input form.\<close>

definition fuelA :: Fuel where
  "fuelA = \<lparr> Fuel.type = ''wood'', Fuel.quantity = Fin 1000, Fuel.heatContent = Fin 8000 \<rparr>"

definition waterA :: Water where
  "waterA = \<lparr> Water.quantity = Fin 34500, Water.temperature = Fin 20 \<rparr>"

definition airA :: Air where
  "airA = \<lparr> Air.quantity = Fin 12000, Air.temperature = Fin 20 \<rparr>"

definition controlA :: ControlSettings where
  "controlA = \<lparr> ControlSettings.pressure = Fin 200, ControlSettings.temperature = Fin 382 \<rparr>"

section \<open>Rounding\<close>

lemmas stage_defs =
  boiler_def furnace_def heatTransfer_def steamGeneration_def generateFlueGases_def
  calculateFlueGasVolume_def calculateFlueGasComposition_def calculateTubeSurfaceArea_def
  calculateSteamTemp_def getLatentHeat_def calculateSensibleHeat_def calculateEmissions_def

lemmas scenarioA_defs = fuelA_def waterA_def airA_def controlA_def defaultParams_def

lemma pow2_powr: "pow2 j = 2 powr of_int j"
  by (simp add: pow2_def powr_real_of_int inverse_eq_divide)

lemma pow2_pos: "0 < pow2 j"
  by (simp add: pow2_powr)




text \<open>How the exponent and the nearest integer are found at a given value.\<close>

lemma exponent_eqI:
  assumes "pow2 e \<le> \<bar>x\<bar>" and "\<bar>x\<bar> < pow2 (e + 1)" and "- 1022 \<le> e"
  shows "exponent x = e"
proof -
  have pos: "0 < \<bar>x\<bar>"
    using assms(1) pow2_pos [of e] by linarith
  have "\<lfloor>log 2 \<bar>x\<bar>\<rfloor> = e"
    using floor_log_eq_powr_iff [of "\<bar>x\<bar>" 2 e] pos assms by (simp add: pow2_powr)
  then show ?thesis
    using assms(3) by (simp add: exponent_def)
qed

lemma exponent_subnormal:
  assumes "\<bar>x\<bar> < pow2 (- 1022)" and "x \<noteq> 0"
  shows "exponent x = - 1022"
proof -
  have "log 2 \<bar>x\<bar> < log 2 (pow2 (- 1022))"
    using assms by (simp add: pow2_pos)
  also have "log 2 (pow2 (- 1022)) = - 1022"
    unfolding pow2_powr by simp
  finally have "\<lfloor>log 2 \<bar>x\<bar>\<rfloor> \<le> - 1022"
    by linarith
  then show ?thesis
    by (simp add: exponent_def)
qed

lemma round_even_eqI:
  assumes "\<bar>r - of_int n\<bar> < 1 / 2"
  shows "round_even r = n"
proof -
  have "\<lfloor>r\<rfloor> = n \<or> \<lfloor>r\<rfloor> = n - 1"
    using assms by linarith
  then show ?thesis
    using assms by (auto simp: round_even_def Let_def)
qed

lemma round_even_tie:
  assumes "r = of_int n + 1 / 2"
  shows "round_even r = (if even n then n else n + 1)"
proof -
  have "\<lfloor>r\<rfloor> = n"
    using assms by linarith
  then show ?thesis
    using assms by (simp add: round_even_def Let_def)
qed


lemma rnd_evalI:
  assumes "exponent x = e" and "round_even (x / pow2 (e - 52)) = n"
  shows "rnd x =
    (if pow2 1024 \<le> \<bar>of_int n * pow2 (e - 52)\<bar> then signed_inf x
     else Fin (of_int n * pow2 (e - 52)))"
  using assms by (simp add: rnd_def ulp_def Let_def)

lemma rnd_zero: "rnd 0 = Fin 0"
proof -
  have "\<not> pow2 1024 \<le> 0"
    using pow2_pos [of 1024] by linarith
  then show ?thesis
    by (simp add: rnd_def Let_def round_even_def)
qed

lemma num_div_Fin_zero: "num_div (Fin x) (Fin 0) = signed_inf x"
  by simp

section \<open>The operations at the values of the examples\<close>

text \<open>
  Each lemma rounds one exact result: the exponent and the integer significand are
  given, and checked by computation.
\<close>

lemma ev_lit_1: "literal (9 / 10) = Fin (8106479329266893 / 9007199254740992)"
proof -
  have e: "exponent (9 / 10) = - 1"
    by (rule exponent_eqI) (simp_all add: pow2_def)
  have r: "round_even ((9 / 10) / pow2 (- 1 - 52)) = 8106479329266893"
    by (rule round_even_eqI) (simp add: pow2_def)
  show ?thesis
    using rnd_evalI [OF e r] by (simp add: pow2_def signed_inf_def literal_def)
qed

lemma ev_lit_2: "literal (17 / 10) = Fin (7656119366529843 / 4503599627370496)"
proof -
  have e: "exponent (17 / 10) = 0"
    by (rule exponent_eqI) (simp_all add: pow2_def)
  have r: "round_even ((17 / 10) / pow2 (0 - 52)) = 7656119366529843"
    by (rule round_even_eqI) (simp add: pow2_def)
  show ?thesis
    using rnd_evalI [OF e r] by (simp add: pow2_def signed_inf_def literal_def)
qed

lemma ev_lit_3: "literal (1 / 2) = Fin (1 / 2)"
proof -
  have e: "exponent (1 / 2) = - 1"
    by (rule exponent_eqI) (simp_all add: pow2_def)
  have r: "round_even ((1 / 2) / pow2 (- 1 - 52)) = 4503599627370496"
    by (rule round_even_eqI) (simp add: pow2_def)
  show ?thesis
    using rnd_evalI [OF e r] by (simp add: pow2_def signed_inf_def literal_def)
qed

lemma ev_lit_4: "literal (9 / 5) = Fin (8106479329266893 / 4503599627370496)"
proof -
  have e: "exponent (9 / 5) = 0"
    by (rule exponent_eqI) (simp_all add: pow2_def)
  have r: "round_even ((9 / 5) / pow2 (0 - 52)) = 8106479329266893"
    by (rule round_even_eqI) (simp add: pow2_def)
  show ?thesis
    using rnd_evalI [OF e r] by (simp add: pow2_def signed_inf_def literal_def)
qed

lemma ev_mul_1: "num_mul (Fin 1000) (Fin 8000) = Fin 8000000"
proof -
  have e: "exponent 8000000 = 22"
    by (rule exponent_eqI) (simp_all add: pow2_def)
  have r: "round_even (8000000 / pow2 (22 - 52)) = 8589934592000000"
    by (rule round_even_eqI) (simp add: pow2_def)
  show ?thesis
    using rnd_evalI [OF e r] by (simp add: pow2_def signed_inf_def)
qed

lemma ev_mul_2: "num_mul (Fin 12000) (Fin (8106479329266893 / 9007199254740992)) = Fin 10800"
proof -
  have e: "exponent (3039929748475084875 / 281474976710656) = 13"
    by (rule exponent_eqI) (simp_all add: pow2_def)
  have r: "round_even ((3039929748475084875 / 281474976710656) / pow2 (13 - 52)) = 5937362789990400"
    by (rule round_even_eqI) (simp add: pow2_def)
  show ?thesis
    using rnd_evalI [OF e r] by (simp add: pow2_def signed_inf_def)
qed

lemma ev_mul_3: "num_mul (Fin 8000000) (Fin (8106479329266893 / 9007199254740992)) = Fin 7200000"
proof -
  have e: "exponent (126663739519795203125 / 17592186044416) = 22"
    by (rule exponent_eqI) (simp_all add: pow2_def)
  have r: "round_even ((126663739519795203125 / 17592186044416) / pow2 (22 - 52)) = 7730941132800000"
    by (rule round_even_eqI) (simp add: pow2_def)
  show ?thesis
    using rnd_evalI [OF e r] by (simp add: pow2_def signed_inf_def)
qed

lemma ev_mul_4: "num_mul (Fin 200) (Fin (7656119366529843 / 4503599627370496)) = Fin 340"
proof -
  have e: "exponent (191402984163246075 / 562949953421312) = 8"
    by (rule exponent_eqI) (simp_all add: pow2_def)
  have r: "round_even ((191402984163246075 / 562949953421312) / pow2 (8 - 52)) = 5981343255101440"
    by (rule round_even_eqI) (simp add: pow2_def)
  show ?thesis
    using rnd_evalI [OF e r] by (simp add: pow2_def signed_inf_def)
qed

lemma ev_add_1: "num_add (Fin 212) (Fin 340) = Fin 552"
proof -
  have e: "exponent 552 = 9"
    by (rule exponent_eqI) (simp_all add: pow2_def)
  have r: "round_even (552 / pow2 (9 - 52)) = 4855443348258816"
    by (rule round_even_eqI) (simp add: pow2_def)
  show ?thesis
    using rnd_evalI [OF e r] by (simp add: pow2_def signed_inf_def)
qed

lemma ev_mul_5: "num_mul (Fin 200) (Fin (1 / 2)) = Fin 100"
proof -
  have e: "exponent 100 = 6"
    by (rule exponent_eqI) (simp_all add: pow2_def)
  have r: "round_even (100 / pow2 (6 - 52)) = 7036874417766400"
    by (rule round_even_eqI) (simp add: pow2_def)
  show ?thesis
    using rnd_evalI [OF e r] by (simp add: pow2_def signed_inf_def)
qed

lemma ev_sub_1: "num_sub (Fin 970) (Fin 100) = Fin 870"
proof -
  have e: "exponent 870 = 9"
    by (rule exponent_eqI) (simp_all add: pow2_def)
  have r: "round_even (870 / pow2 (9 - 52)) = 7652600929320960"
    by (rule round_even_eqI) (simp add: pow2_def)
  show ?thesis
    using rnd_evalI [OF e r] by (simp add: pow2_def signed_inf_def)
qed

lemma ev_mul_6: "num_mul (Fin 20) (Fin (8106479329266893 / 4503599627370496)) = Fin 36"
proof -
  have e: "exponent (40532396646334465 / 1125899906842624) = 5"
    by (rule exponent_eqI) (simp_all add: pow2_def)
  have r: "round_even ((40532396646334465 / 1125899906842624) / pow2 (5 - 52)) = 5066549580791808"
    by (rule round_even_eqI) (simp add: pow2_def)
  show ?thesis
    using rnd_evalI [OF e r] by (simp add: pow2_def signed_inf_def)
qed

lemma ev_add_2: "num_add (Fin 36) (Fin 32) = Fin 68"
proof -
  have e: "exponent 68 = 6"
    by (rule exponent_eqI) (simp_all add: pow2_def)
  have r: "round_even (68 / pow2 (6 - 52)) = 4785074604081152"
    by (rule round_even_eqI) (simp add: pow2_def)
  show ?thesis
    using rnd_evalI [OF e r] by (simp add: pow2_def signed_inf_def)
qed

lemma ev_sub_2: "num_sub (Fin 552) (Fin 68) = Fin 484"
proof -
  have e: "exponent 484 = 8"
    by (rule exponent_eqI) (simp_all add: pow2_def)
  have r: "round_even (484 / pow2 (8 - 52)) = 8514618045497344"
    by (rule round_even_eqI) (simp add: pow2_def)
  show ?thesis
    using rnd_evalI [OF e r] by (simp add: pow2_def signed_inf_def)
qed

lemma ev_add_3: "num_add (Fin 484) (Fin 870) = Fin 1354"
proof -
  have e: "exponent 1354 = 10"
    by (rule exponent_eqI) (simp_all add: pow2_def)
  have r: "round_even (1354 / pow2 (10 - 52)) = 5954954976034816"
    by (rule round_even_eqI) (simp add: pow2_def)
  show ?thesis
    using rnd_evalI [OF e r] by (simp add: pow2_def signed_inf_def)
qed

lemma ev_div_1: "num_div (Fin 7200000) (Fin 1354) = Fin (5846738345633087 / 1099511627776)"
proof -
  have e: "exponent (3600000 / 677) = 12"
    by (rule exponent_eqI) (simp_all add: pow2_def)
  have r: "round_even ((3600000 / 677) / pow2 (12 - 52)) = 5846738345633087"
    by (rule round_even_eqI) (simp add: pow2_def)
  show ?thesis
    using rnd_evalI [OF e r] by (simp add: pow2_def signed_inf_def)
qed

lemma ev_sub_3: "num_sub (Fin 1) (Fin (8106479329266893 / 9007199254740992)) = Fin (900719925474099 / 9007199254740992)"
proof -
  have e: "exponent (900719925474099 / 9007199254740992) = - 4"
    by (rule exponent_eqI) (simp_all add: pow2_def)
  have r: "round_even ((900719925474099 / 9007199254740992) / pow2 (- 4 - 52)) = 7205759403792792"
    by (rule round_even_eqI) (simp add: pow2_def)
  show ?thesis
    using rnd_evalI [OF e r] by (simp add: pow2_def signed_inf_def)
qed

lemma ev_mul_7: "num_mul (Fin 8000000) (Fin (900719925474099 / 9007199254740992)) = Fin (3435973836799999 / 4294967296)"
proof -
  have e: "exponent (14073748835532796875 / 17592186044416) = 19"
    by (rule exponent_eqI) (simp_all add: pow2_def)
  have r: "round_even ((14073748835532796875 / 17592186044416) / pow2 (19 - 52)) = 6871947673599998"
    by (rule round_even_eqI) (simp add: pow2_def)
  show ?thesis
    using rnd_evalI [OF e r] by (simp add: pow2_def signed_inf_def)
qed

lemma ev_mul_8: "num_mul (Fin 3) (Fin 3) = Fin 9"
proof -
  have e: "exponent 9 = 3"
    by (rule exponent_eqI) (simp_all add: pow2_def)
  have r: "round_even (9 / pow2 (3 - 52)) = 5066549580791808"
    by (rule round_even_eqI) (simp add: pow2_def)
  show ?thesis
    using rnd_evalI [OF e r] by (simp add: pow2_def signed_inf_def)
qed

lemma ev_mul_9: "num_mul (Fin 9) (Fin (8106479329266893 / 9007199254740992)) = Fin (4559894622712627 / 562949953421312)"
proof -
  have e: "exponent (72958313963402037 / 9007199254740992) = 3"
    by (rule exponent_eqI) (simp_all add: pow2_def)
  have r: "round_even ((72958313963402037 / 9007199254740992) / pow2 (3 - 52)) = 4559894622712627"
    by (rule round_even_eqI) (simp add: pow2_def)
  show ?thesis
    using rnd_evalI [OF e r] by (simp add: pow2_def signed_inf_def)
qed

lemma ev_mul_10: "num_mul (Fin 0) (Fin (7656119366529843 / 4503599627370496)) = Fin 0"
  by (simp add: rnd_zero)

lemma ev_add_4: "num_add (Fin 212) (Fin 0) = Fin 212"
proof -
  have e: "exponent 212 = 7"
    by (rule exponent_eqI) (simp_all add: pow2_def)
  have r: "round_even (212 / pow2 (7 - 52)) = 7459086882832384"
    by (rule round_even_eqI) (simp add: pow2_def)
  show ?thesis
    using rnd_evalI [OF e r] by (simp add: pow2_def signed_inf_def)
qed

lemma ev_mul_11: "num_mul (Fin 0) (Fin (1 / 2)) = Fin 0"
  by (simp add: rnd_zero)

lemma ev_sub_4: "num_sub (Fin 970) (Fin 0) = Fin 970"
proof -
  have e: "exponent 970 = 9"
    by (rule exponent_eqI) (simp_all add: pow2_def)
  have r: "round_even (970 / pow2 (9 - 52)) = 8532210231541760"
    by (rule round_even_eqI) (simp add: pow2_def)
  show ?thesis
    using rnd_evalI [OF e r] by (simp add: pow2_def signed_inf_def)
qed

lemma ev_mul_12: "num_mul (Fin 70) (Fin (8106479329266893 / 4503599627370496)) = Fin 126"
proof -
  have e: "exponent (283726776524341255 / 2251799813685248) = 6"
    by (rule exponent_eqI) (simp_all add: pow2_def)
  have r: "round_even ((283726776524341255 / 2251799813685248) / pow2 (6 - 52)) = 8866461766385664"
    by (rule round_even_eqI) (simp add: pow2_def)
  show ?thesis
    using rnd_evalI [OF e r] by (simp add: pow2_def signed_inf_def)
qed

lemma ev_add_5: "num_add (Fin 126) (Fin 32) = Fin 158"
proof -
  have e: "exponent 158 = 7"
    by (rule exponent_eqI) (simp_all add: pow2_def)
  have r: "round_even (158 / pow2 (7 - 52)) = 5559130790035456"
    by (rule round_even_eqI) (simp add: pow2_def)
  show ?thesis
    using rnd_evalI [OF e r] by (simp add: pow2_def signed_inf_def)
qed

lemma ev_sub_5: "num_sub (Fin 212) (Fin 158) = Fin 54"
proof -
  have e: "exponent 54 = 5"
    by (rule exponent_eqI) (simp_all add: pow2_def)
  have r: "round_even (54 / pow2 (5 - 52)) = 7599824371187712"
    by (rule round_even_eqI) (simp add: pow2_def)
  show ?thesis
    using rnd_evalI [OF e r] by (simp add: pow2_def signed_inf_def)
qed

lemma ev_add_6: "num_add (Fin 54) (Fin 970) = Fin 1024"
proof -
  have e: "exponent 1024 = 10"
    by (rule exponent_eqI) (simp_all add: pow2_def)
  have r: "round_even (1024 / pow2 (10 - 52)) = 4503599627370496"
    by (rule round_even_eqI) (simp add: pow2_def)
  show ?thesis
    using rnd_evalI [OF e r] by (simp add: pow2_def signed_inf_def)
qed

lemma ev_div_2: "num_div (Fin (4559894622712627 / 562949953421312)) (Fin 1024) = Fin (4559894622712627 / 576460752303423488)"
proof -
  have e: "exponent (4559894622712627 / 576460752303423488) = - 7"
    by (rule exponent_eqI) (simp_all add: pow2_def)
  have r: "round_even ((4559894622712627 / 576460752303423488) / pow2 (- 7 - 52)) = 4559894622712627"
    by (rule round_even_eqI) (simp add: pow2_def)
  show ?thesis
    using rnd_evalI [OF e r] by (simp add: pow2_def signed_inf_def)
qed

lemma ev_mul_13: "num_mul (Fin 9) (Fin (900719925474099 / 9007199254740992)) = Fin (8106479329266891 / 9007199254740992)"
proof -
  have e: "exponent (8106479329266891 / 9007199254740992) = - 1"
    by (rule exponent_eqI) (simp_all add: pow2_def)
  have r: "round_even ((8106479329266891 / 9007199254740992) / pow2 (- 1 - 52)) = 8106479329266891"
    by (rule round_even_eqI) (simp add: pow2_def)
  show ?thesis
    using rnd_evalI [OF e r] by (simp add: pow2_def signed_inf_def)
qed

lemma ev_mul_14: "num_mul (Fin (8106479329266893 / 9007199254740992)) (Fin 3) = Fin (3039929748475085 / 1125899906842624)"
proof -
  have e: "exponent (24319437987800679 / 9007199254740992) = 1"
    by (rule exponent_eqI) (simp_all add: pow2_def)
  have r: "round_even ((24319437987800679 / 9007199254740992) / pow2 (1 - 52)) = 6079859496950170"
    by (rule round_even_eqI) (simp add: pow2_def)
  show ?thesis
    using rnd_evalI [OF e r] by (simp add: pow2_def signed_inf_def)
qed

lemma ev_mul_15: "num_mul (Fin (3039929748475085 / 1125899906842624)) (Fin 3) = Fin (1139973655678157 / 140737488355328)"
proof -
  have e: "exponent (9119789245425255 / 1125899906842624) = 3"
    by (rule exponent_eqI) (simp_all add: pow2_def)
  have r: "round_even ((9119789245425255 / 1125899906842624) / pow2 (3 - 52)) = 4559894622712628"
    using round_even_tie [of "(9119789245425255 / 1125899906842624) / pow2 (3 - 52)" "4559894622712627"] by (simp add: pow2_def)
  show ?thesis
    using rnd_evalI [OF e r] by (simp add: pow2_def signed_inf_def)
qed

lemma ev_div_3: "num_div (Fin (1139973655678157 / 140737488355328)) (Fin 1024) = Fin (1139973655678157 / 144115188075855872)"
proof -
  have e: "exponent (1139973655678157 / 144115188075855872) = - 7"
    by (rule exponent_eqI) (simp_all add: pow2_def)
  have r: "round_even ((1139973655678157 / 144115188075855872) / pow2 (- 7 - 52)) = 4559894622712628"
    by (rule round_even_eqI) (simp add: pow2_def)
  show ?thesis
    using rnd_evalI [OF e r] by (simp add: pow2_def signed_inf_def)
qed

lemma ev_mul_16: "num_mul (Fin (2809863048760889 / 4398046511104)) (Fin (8106479329266893 / 4503599627370496)) = Fin 1150"
proof -
  have e: "exponent (22778096722850998520836420947877 / 19807040628566084398385987584) = 10"
    by (rule exponent_eqI) (simp_all add: pow2_def)
  have r: "round_even ((22778096722850998520836420947877 / 19807040628566084398385987584) / pow2 (10 - 52)) = 5057753487769600"
    by (rule round_even_eqI) (simp add: pow2_def)
  show ?thesis
    using rnd_evalI [OF e r] by (simp add: pow2_def signed_inf_def)
qed

lemma ev_add_7: "num_add (Fin 1150) (Fin 32) = Fin 1182"
proof -
  have e: "exponent 1182 = 10"
    by (rule exponent_eqI) (simp_all add: pow2_def)
  have r: "round_even (1182 / pow2 (10 - 52)) = 5198490976124928"
    by (rule round_even_eqI) (simp add: pow2_def)
  show ?thesis
    using rnd_evalI [OF e r] by (simp add: pow2_def signed_inf_def)
qed

lemma ev_sub_6: "num_sub (Fin 212) (Fin 1182) = Fin (- 970)"
proof -
  have e: "exponent (- 970) = 9"
    by (rule exponent_eqI) (simp_all add: pow2_def)
  have r: "round_even ((- 970) / pow2 (9 - 52)) = - 8532210231541760"
    by (rule round_even_eqI) (simp add: pow2_def)
  show ?thesis
    using rnd_evalI [OF e r] by (simp add: pow2_def signed_inf_def)
qed

lemma ev_add_8: "num_add (Fin (- 970)) (Fin 970) = Fin 0"
  by (simp add: rnd_zero)

lemma ev_mul_17: "num_mul (Fin 1000) (Fin (8106479329266893 / 4503599627370496)) = Fin 1800"
proof -
  have e: "exponent (1013309916158361625 / 562949953421312) = 10"
    by (rule exponent_eqI) (simp_all add: pow2_def)
  have r: "round_even ((1013309916158361625 / 562949953421312) / pow2 (10 - 52)) = 7916483719987200"
    by (rule round_even_eqI) (simp add: pow2_def)
  show ?thesis
    using rnd_evalI [OF e r] by (simp add: pow2_def signed_inf_def)
qed

lemma ev_add_9: "num_add (Fin 1800) (Fin 32) = Fin 1832"
proof -
  have e: "exponent 1832 = 10"
    by (rule exponent_eqI) (simp_all add: pow2_def)
  have r: "round_even (1832 / pow2 (10 - 52)) = 8057221208342528"
    by (rule round_even_eqI) (simp add: pow2_def)
  show ?thesis
    using rnd_evalI [OF e r] by (simp add: pow2_def signed_inf_def)
qed

lemma ev_sub_7: "num_sub (Fin 552) (Fin 1832) = Fin (- 1280)"
proof -
  have e: "exponent (- 1280) = 10"
    by (rule exponent_eqI) (simp_all add: pow2_def)
  have r: "round_even ((- 1280) / pow2 (10 - 52)) = - 5629499534213120"
    by (rule round_even_eqI) (simp add: pow2_def)
  show ?thesis
    using rnd_evalI [OF e r] by (simp add: pow2_def signed_inf_def)
qed

lemma ev_add_10: "num_add (Fin (- 1280)) (Fin 870) = Fin (- 410)"
proof -
  have e: "exponent (- 410) = 8"
    by (rule exponent_eqI) (simp_all add: pow2_def)
  have r: "round_even ((- 410) / pow2 (8 - 52)) = - 7212796278210560"
    by (rule round_even_eqI) (simp add: pow2_def)
  show ?thesis
    using rnd_evalI [OF e r] by (simp add: pow2_def signed_inf_def)
qed

lemma ev_div_4: "num_div (Fin 7200000) (Fin (- 410)) = Fin (- (2413562109752195 / 137438953472))"
proof -
  have e: "exponent (- (720000 / 41)) = 14"
    by (rule exponent_eqI) (simp_all add: pow2_def)
  have r: "round_even ((- (720000 / 41)) / pow2 (14 - 52)) = - 4827124219504390"
    by (rule round_even_eqI) (simp add: pow2_def)
  show ?thesis
    using rnd_evalI [OF e r] by (simp add: pow2_def signed_inf_def)
qed

lemma ev_mul_18: "num_mul (Fin (- 1000)) (Fin 8000) = Fin (- 8000000)"
proof -
  have e: "exponent (- 8000000) = 22"
    by (rule exponent_eqI) (simp_all add: pow2_def)
  have r: "round_even ((- 8000000) / pow2 (22 - 52)) = - 8589934592000000"
    by (rule round_even_eqI) (simp add: pow2_def)
  show ?thesis
    using rnd_evalI [OF e r] by (simp add: pow2_def signed_inf_def)
qed

lemma ev_mul_19: "num_mul (Fin (- 8000000)) (Fin (900719925474099 / 9007199254740992)) = Fin (- (3435973836799999 / 4294967296))"
proof -
  have e: "exponent (- (14073748835532796875 / 17592186044416)) = 19"
    by (rule exponent_eqI) (simp_all add: pow2_def)
  have r: "round_even ((- (14073748835532796875 / 17592186044416)) / pow2 (19 - 52)) = - 6871947673599998"
    by (rule round_even_eqI) (simp add: pow2_def)
  show ?thesis
    using rnd_evalI [OF e r] by (simp add: pow2_def signed_inf_def)
qed

lemma ev_mul_20: "num_mul (Fin (- 12000)) (Fin (8106479329266893 / 9007199254740992)) = Fin (- 10800)"
proof -
  have e: "exponent (- (3039929748475084875 / 281474976710656)) = 13"
    by (rule exponent_eqI) (simp_all add: pow2_def)
  have r: "round_even ((- (3039929748475084875 / 281474976710656)) / pow2 (13 - 52)) = - 5937362789990400"
    by (rule round_even_eqI) (simp add: pow2_def)
  show ?thesis
    using rnd_evalI [OF e r] by (simp add: pow2_def signed_inf_def)
qed

lemma ev_sub_8: "num_sub (Fin 1) (Fin (3 / 2)) = Fin (- (1 / 2))"
proof -
  have e: "exponent (- (1 / 2)) = - 1"
    by (rule exponent_eqI) (simp_all add: pow2_def)
  have r: "round_even ((- (1 / 2)) / pow2 (- 1 - 52)) = - 4503599627370496"
    by (rule round_even_eqI) (simp add: pow2_def)
  show ?thesis
    using rnd_evalI [OF e r] by (simp add: pow2_def signed_inf_def)
qed

lemma ev_mul_21: "num_mul (Fin 8000000) (Fin (- (1 / 2))) = Fin (- 4000000)"
proof -
  have e: "exponent (- 4000000) = 21"
    by (rule exponent_eqI) (simp_all add: pow2_def)
  have r: "round_even ((- 4000000) / pow2 (21 - 52)) = - 8589934592000000"
    by (rule round_even_eqI) (simp add: pow2_def)
  show ?thesis
    using rnd_evalI [OF e r] by (simp add: pow2_def signed_inf_def)
qed

lemma ev_mul_22: "num_mul (Fin 0) (Fin 8000) = Fin 0"
  by (simp add: rnd_zero)

lemma ev_mul_23: "num_mul (Fin 0) (Fin (8106479329266893 / 9007199254740992)) = Fin 0"
  by (simp add: rnd_zero)

lemma ev_mul_24: "num_mul (Fin 4149515568880992958512407863691161151012446232242436899995657329690652811412908146399707048947103794288197886611300789182395151075411775307886874834113963687061181803401509523685376) (Fin 4149515568880992958512407863691161151012446232242436899995657329690652811412908146399707048947103794288197886611300789182395151075411775307886874834113963687061181803401509523685376) = PInf"
proof -
  have e: "exponent 17218479456385750618067377696052635483579924745448689921733236816400740691241745619397484537236046173286370919031961587788584927290816661024991609882728717344659503471655990880884679896520055123906467064419056526231345685268240569209892573766037966584735183775739433978714578587782701380797240772477647874555986712746271362892227516205318914435913511141036261376 = 1200"
    by (rule exponent_eqI) (simp_all add: pow2_def)
  have r: "round_even (17218479456385750618067377696052635483579924745448689921733236816400740691241745619397484537236046173286370919031961587788584927290816661024991609882728717344659503471655990880884679896520055123906467064419056526231345685268240569209892573766037966584735183775739433978714578587782701380797240772477647874555986712746271362892227516205318914435913511141036261376 / pow2 (1200 - 52)) = 4503599627370496"
    by (rule round_even_eqI) (simp add: pow2_def)
  show ?thesis
    using rnd_evalI [OF e r] by (simp add: pow2_def signed_inf_def)
qed

lemma ev_sub_9: "num_sub (Fin 1) (Fin 1) = Fin 0"
  by (simp add: rnd_zero)

lemma ev_mul_25: "num_mul (Fin 10715086071862673209484250490600018105614048117055336074437503883703510511249361224931983788156958581275946729175531468251871452856923140435984577574698574803934567774824230985421074605062371141877954182153046474983581941267398767559165543946077062914571196477686542167660429831652624386837205668069376) (Fin 8388608) = Fin 89884656743115795386465259539451236680898848947115328636715040578866337902750481566354238661203768010560056939935696678829394884407208311246423715319737062188883946712432742638151109800623047059726541476042502884419075341171231440736956555270413618581675255342293149119973622969239858152417678164812112068608"
proof -
  have e: "exponent 89884656743115795386465259539451236680898848947115328636715040578866337902750481566354238661203768010560056939935696678829394884407208311246423715319737062188883946712432742638151109800623047059726541476042502884419075341171231440736956555270413618581675255342293149119973622969239858152417678164812112068608 = 1023"
    by (rule exponent_eqI) (simp_all add: pow2_def)
  have r: "round_even (89884656743115795386465259539451236680898848947115328636715040578866337902750481566354238661203768010560056939935696678829394884407208311246423715319737062188883946712432742638151109800623047059726541476042502884419075341171231440736956555270413618581675255342293149119973622969239858152417678164812112068608 / pow2 (1023 - 52)) = 4503599627370496"
    by (rule round_even_eqI) (simp add: pow2_def)
  show ?thesis
    using rnd_evalI [OF e r] by (simp add: pow2_def signed_inf_def)
qed

lemma ev_sub_10: "num_sub (Fin 1) (Fin (- 1)) = Fin 2"
proof -
  have e: "exponent 2 = 1"
    by (rule exponent_eqI) (simp_all add: pow2_def)
  have r: "round_even (2 / pow2 (1 - 52)) = 4503599627370496"
    by (rule round_even_eqI) (simp add: pow2_def)
  show ?thesis
    using rnd_evalI [OF e r] by (simp add: pow2_def signed_inf_def)
qed

lemma ev_mul_26: "num_mul (Fin 89884656743115795386465259539451236680898848947115328636715040578866337902750481566354238661203768010560056939935696678829394884407208311246423715319737062188883946712432742638151109800623047059726541476042502884419075341171231440736956555270413618581675255342293149119973622969239858152417678164812112068608) (Fin 2) = PInf"
proof -
  have e: "exponent 179769313486231590772930519078902473361797697894230657273430081157732675805500963132708477322407536021120113879871393357658789768814416622492847430639474124377767893424865485276302219601246094119453082952085005768838150682342462881473913110540827237163350510684586298239947245938479716304835356329624224137216 = 1024"
    by (rule exponent_eqI) (simp_all add: pow2_def)
  have r: "round_even (179769313486231590772930519078902473361797697894230657273430081157732675805500963132708477322407536021120113879871393357658789768814416622492847430639474124377767893424865485276302219601246094119453082952085005768838150682342462881473913110540827237163350510684586298239947245938479716304835356329624224137216 / pow2 (1024 - 52)) = 4503599627370496"
    by (rule round_even_eqI) (simp add: pow2_def)
  show ?thesis
    using rnd_evalI [OF e r] by (simp add: pow2_def signed_inf_def)
qed

lemma ev_mul_27: "num_mul (Fin (1 / 202402253307310618352495346718917307049556649764142118356901358027430339567995346891960383701437124495187077864316811911389808737385793476867013399940738509921517424276566361364466907742093216341239767678472745068562007483424692698618103355649159556340810056512358769552333414615230502532186327508646006263307707741093494784)) (Fin (1 / 2)) = Fin 0"
proof -
  have e: "exponent (1 / 404804506614621236704990693437834614099113299528284236713802716054860679135990693783920767402874248990374155728633623822779617474771586953734026799881477019843034848553132722728933815484186432682479535356945490137124014966849385397236206711298319112681620113024717539104666829230461005064372655017292012526615415482186989568) = - 1022"
    by (rule exponent_subnormal) (simp_all add: pow2_def)
  have r: "round_even ((1 / 404804506614621236704990693437834614099113299528284236713802716054860679135990693783920767402874248990374155728633623822779617474771586953734026799881477019843034848553132722728933815484186432682479535356945490137124014966849385397236206711298319112681620113024717539104666829230461005064372655017292012526615415482186989568) / pow2 (- 1022 - 52)) = 0"
    using round_even_tie [of "(1 / 404804506614621236704990693437834614099113299528284236713802716054860679135990693783920767402874248990374155728633623822779617474771586953734026799881477019843034848553132722728933815484186432682479535356945490137124014966849385397236206711298319112681620113024717539104666829230461005064372655017292012526615415482186989568) / pow2 (- 1022 - 52)" "0"] by (simp add: pow2_def)
  show ?thesis
    using rnd_evalI [OF e r] by (simp add: pow2_def signed_inf_def)
qed

lemma ev_mul_28: "num_mul (Fin (1 / 101201126653655309176247673359458653524778324882071059178450679013715169783997673445980191850718562247593538932158405955694904368692896738433506699970369254960758712138283180682233453871046608170619883839236372534281003741712346349309051677824579778170405028256179384776166707307615251266093163754323003131653853870546747392)) (Fin (1 / 2)) = Fin (1 / 202402253307310618352495346718917307049556649764142118356901358027430339567995346891960383701437124495187077864316811911389808737385793476867013399940738509921517424276566361364466907742093216341239767678472745068562007483424692698618103355649159556340810056512358769552333414615230502532186327508646006263307707741093494784)"
proof -
  have e: "exponent (1 / 202402253307310618352495346718917307049556649764142118356901358027430339567995346891960383701437124495187077864316811911389808737385793476867013399940738509921517424276566361364466907742093216341239767678472745068562007483424692698618103355649159556340810056512358769552333414615230502532186327508646006263307707741093494784) = - 1022"
    by (rule exponent_subnormal) (simp_all add: pow2_def)
  have r: "round_even ((1 / 202402253307310618352495346718917307049556649764142118356901358027430339567995346891960383701437124495187077864316811911389808737385793476867013399940738509921517424276566361364466907742093216341239767678472745068562007483424692698618103355649159556340810056512358769552333414615230502532186327508646006263307707741093494784) / pow2 (- 1022 - 52)) = 1"
    by (rule round_even_eqI) (simp add: pow2_def)
  show ?thesis
    using rnd_evalI [OF e r] by (simp add: pow2_def signed_inf_def)
qed

lemma ev_mul_29: "num_mul (Fin 2) (Fin 0) = Fin 0"
  by (simp add: rnd_zero)

lemma ev_sub_11: "num_sub (Fin 1) (Fin (1 / 2)) = Fin (1 / 2)"
proof -
  have e: "exponent (1 / 2) = - 1"
    by (rule exponent_eqI) (simp_all add: pow2_def)
  have r: "round_even ((1 / 2) / pow2 (- 1 - 52)) = 4503599627370496"
    by (rule round_even_eqI) (simp add: pow2_def)
  show ?thesis
    using rnd_evalI [OF e r] by (simp add: pow2_def signed_inf_def)
qed

lemma ev_mul_30: "num_mul (Fin 89884656743115795386465259539451236680898848947115328636715040578866337902750481566354238661203768010560056939935696678829394884407208311246423715319737062188883946712432742638151109800623047059726541476042502884419075341171231440736956555270413618581675255342293149119973622969239858152417678164812112068608) (Fin (1 / 2)) = Fin 44942328371557897693232629769725618340449424473557664318357520289433168951375240783177119330601884005280028469967848339414697442203604155623211857659868531094441973356216371319075554900311523529863270738021251442209537670585615720368478277635206809290837627671146574559986811484619929076208839082406056034304"
proof -
  have e: "exponent 44942328371557897693232629769725618340449424473557664318357520289433168951375240783177119330601884005280028469967848339414697442203604155623211857659868531094441973356216371319075554900311523529863270738021251442209537670585615720368478277635206809290837627671146574559986811484619929076208839082406056034304 = 1022"
    by (rule exponent_eqI) (simp_all add: pow2_def)
  have r: "round_even (44942328371557897693232629769725618340449424473557664318357520289433168951375240783177119330601884005280028469967848339414697442203604155623211857659868531094441973356216371319075554900311523529863270738021251442209537670585615720368478277635206809290837627671146574559986811484619929076208839082406056034304 / pow2 (1022 - 52)) = 4503599627370496"
    by (rule round_even_eqI) (simp add: pow2_def)
  show ?thesis
    using rnd_evalI [OF e r] by (simp add: pow2_def signed_inf_def)
qed

lemma ev_mul_31: "num_mul (Fin 21430172143725346418968500981200036211228096234110672148875007767407021022498722449863967576313917162551893458351062936503742905713846280871969155149397149607869135549648461970842149210124742283755908364306092949967163882534797535118331087892154125829142392955373084335320859663305248773674411336138752) (Fin 8388608) = PInf"
proof -
  have e: "exponent 179769313486231590772930519078902473361797697894230657273430081157732675805500963132708477322407536021120113879871393357658789768814416622492847430639474124377767893424865485276302219601246094119453082952085005768838150682342462881473913110540827237163350510684586298239947245938479716304835356329624224137216 = 1024"
    by (rule exponent_eqI) (simp_all add: pow2_def)
  have r: "round_even (179769313486231590772930519078902473361797697894230657273430081157732675805500963132708477322407536021120113879871393357658789768814416622492847430639474124377767893424865485276302219601246094119453082952085005768838150682342462881473913110540827237163350510684586298239947245938479716304835356329624224137216 / pow2 (1024 - 52)) = 4503599627370496"
    by (rule round_even_eqI) (simp add: pow2_def)
  show ?thesis
    using rnd_evalI [OF e r] by (simp add: pow2_def signed_inf_def)
qed

lemma ev_mul_32: "num_mul (Fin 2) (Fin 44942328371557897693232629769725618340449424473557664318357520289433168951375240783177119330601884005280028469967848339414697442203604155623211857659868531094441973356216371319075554900311523529863270738021251442209537670585615720368478277635206809290837627671146574559986811484619929076208839082406056034304) = Fin 89884656743115795386465259539451236680898848947115328636715040578866337902750481566354238661203768010560056939935696678829394884407208311246423715319737062188883946712432742638151109800623047059726541476042502884419075341171231440736956555270413618581675255342293149119973622969239858152417678164812112068608"
proof -
  have e: "exponent 89884656743115795386465259539451236680898848947115328636715040578866337902750481566354238661203768010560056939935696678829394884407208311246423715319737062188883946712432742638151109800623047059726541476042502884419075341171231440736956555270413618581675255342293149119973622969239858152417678164812112068608 = 1023"
    by (rule exponent_eqI) (simp_all add: pow2_def)
  have r: "round_even (89884656743115795386465259539451236680898848947115328636715040578866337902750481566354238661203768010560056939935696678829394884407208311246423715319737062188883946712432742638151109800623047059726541476042502884419075341171231440736956555270413618581675255342293149119973622969239858152417678164812112068608 / pow2 (1023 - 52)) = 4503599627370496"
    by (rule round_even_eqI) (simp add: pow2_def)
  show ?thesis
    using rnd_evalI [OF e r] by (simp add: pow2_def signed_inf_def)
qed

lemma ev_mul_33: "num_mul (Fin 2) (Fin 8000000) = Fin 16000000"
proof -
  have e: "exponent 16000000 = 23"
    by (rule exponent_eqI) (simp_all add: pow2_def)
  have r: "round_even (16000000 / pow2 (23 - 52)) = 8589934592000000"
    by (rule round_even_eqI) (simp add: pow2_def)
  show ?thesis
    using rnd_evalI [OF e r] by (simp add: pow2_def signed_inf_def)
qed

lemmas evals =
  num_div_Fin_zero ev_lit_1 ev_lit_2 ev_lit_3 ev_lit_4 ev_mul_1 ev_mul_2 ev_mul_3
  ev_mul_4 ev_add_1 ev_mul_5 ev_sub_1 ev_mul_6 ev_add_2 ev_sub_2 ev_add_3 ev_div_1
  ev_sub_3 ev_mul_7 ev_mul_8 ev_mul_9 ev_mul_10 ev_add_4 ev_mul_11 ev_sub_4 ev_mul_12
  ev_add_5 ev_sub_5 ev_add_6 ev_div_2 ev_mul_13 ev_mul_14 ev_mul_15 ev_div_3 ev_mul_16
  ev_add_7 ev_sub_6 ev_add_8 ev_mul_17 ev_add_9 ev_sub_7 ev_add_10 ev_div_4 ev_mul_18
  ev_mul_19 ev_mul_20 ev_sub_8 ev_mul_21 ev_mul_22 ev_mul_23 ev_mul_24 ev_sub_9
  ev_mul_25 ev_sub_10 ev_mul_26 ev_mul_27 ev_mul_28 ev_mul_29 ev_sub_11 ev_mul_30
  ev_mul_31 ev_mul_32 ev_mul_33




section \<open>Properties of rounding\<close>



































section \<open>Properties of the pipeline\<close>

text \<open>
  C1, as amended. On the inputs of Scenario A and the default parameters (the call that
  omits \<open>params\<close>), the result is exactly: steam flow rate the quotient \<open>7200000 / 1354\<close>
  as the division rounds it, which is \<open>5846738345633087 / 2^40\<close> and \<open>\<approx> 5317.58\<close>;
  pressure \<open>200\<close>; temperature \<open>552\<close>; waste heat \<open>800000 - 2^-32\<close>, which prints as
  \<open>799999.9999999998\<close>; flue gases of volume \<open>10800\<close>, temperature \<open>180\<close> and composition
  CO2 10, H2O 15, O2 5, N2 70; emissions CO 100, NOx 50.
\<close>

theorem scenario_A_output:
  "boiler fuelA waterA airA (Fin 50) controlA None =
     \<lparr> BoilerOutput.steam =
         \<lparr> Steam.flowRate = num_div (Fin 7200000) (Fin 1354), Steam.pressure = Fin 200,
           Steam.temperature = Fin 552 \<rparr>,
       BoilerOutput.flueGases =
         \<lparr> FlueGases.volume = Fin 10800, FlueGases.temp = Fin 180,
           FlueGases.composition =
             [(''CO2'', Fin 10), (''H2O'', Fin 15), (''O2'', Fin 5), (''N2'', Fin 70)] \<rparr>,
       BoilerOutput.wasteHeat = Fin (800000 - 1 / 2 ^ 32),
       BoilerOutput.emissions = [(''CO'', Fin 100), (''NOx'', Fin 50)] \<rparr>
   \<and> num_div (Fin 7200000) (Fin 1354) = Fin (5846738345633087 / 2 ^ 40)
   \<and> agrees_to_2dp
       (Steam.flowRate (BoilerOutput.steam (boiler fuelA waterA airA (Fin 50) controlA None)))
       5317.58"
  by (simp add: stage_defs Let_def scenarioA_defs evals
      del: num_add.simps(1) num_sub.simps(1) num_mul.simps(1) num_div.simps(1))

text \<open>
  C1 as first stated fails twice: the waste heat is not \<open>800000\<close> (the source's
  \<open>1 - 0.9\<close> is \<open>0.09999999999999998\<close>), and the flow rate is not \<open>\<approx> 5316.10\<close>.
\<close>

theorem scenario_A_counterexample:
  "BoilerOutput.wasteHeat (boiler fuelA waterA airA (Fin 50) controlA None) \<noteq> Fin 800000
   \<and> \<not> agrees_to_2dp
       (Steam.flowRate (BoilerOutput.steam (boiler fuelA waterA airA (Fin 50) controlA None)))
       5316.10"
  by (simp add: stage_defs Let_def scenarioA_defs evals
      del: num_add.simps(1) num_sub.simps(1) num_mul.simps(1) num_div.simps(1))

text \<open>
  C2, as amended. For every input (and whether \<open>params\<close> is given or not), the steam
  record of the result has the pressure of the control settings, the temperature
  \<open>212 + pressure * 1.7\<close>, and the flow rate \<open>heatTransferred / totalHeatPerUnit\<close>, where
  \<open>heatTransferred = (fuel.quantity * fuel.heatContent) * 0.9\<close>, the product of the fuel
  fields being formed and rounded first, and \<open>totalHeatPerUnit =
  (steam.temperature - (water.temperature * 1.8 + 32)) + (970 - pressure * 0.5)\<close>.
\<close>

theorem steam_record:
  "Steam.pressure (BoilerOutput.steam (boiler f w a e cs po)) = ControlSettings.pressure cs
   \<and> Steam.temperature (BoilerOutput.steam (boiler f w a e cs po)) =
       num_add (Fin 212) (num_mul (ControlSettings.pressure cs) (literal 1.7))
   \<and> Steam.flowRate (BoilerOutput.steam (boiler f w a e cs po)) =
       (let heatTransferred' =
              num_mul (num_mul (Fuel.quantity f) (Fuel.heatContent f)) (literal 0.9);
            totalHeatPerUnit =
              num_add
                (num_sub (Steam.temperature (BoilerOutput.steam (boiler f w a e cs po)))
                   (num_add (num_mul (Water.temperature w) (literal 1.8)) (Fin 32)))
                (num_sub (Fin 970) (num_mul (ControlSettings.pressure cs) (literal 0.5)))
        in num_div heatTransferred' totalHeatPerUnit)"
  by (simp add: stage_defs Let_def)

text \<open>
  C2 as first stated, with \<open>heatTransferred = 0.9 * fuel.quantity * fuel.heatContent\<close>
  read from the left, fails: for a fuel quantity and a heat content of \<open>3\<close>, water at
  \<open>70\<close> and a target pressure of \<open>0\<close> the divisor is \<open>1024\<close>, the code's heat is
  \<open>(3 * 3) * 0.9 = 8.1\<close> and the stated one is \<open>(0.9 * 3) * 3 = 8.100000000000001\<close>, so
  the flow rates differ.
\<close>

theorem steam_record_counterexample:
  "Steam.flowRate (BoilerOutput.steam
      (boiler (fuelA\<lparr>Fuel.quantity := Fin 3, Fuel.heatContent := Fin 3\<rparr>)
         (waterA\<lparr>Water.temperature := Fin 70\<rparr>) airA (Fin 50)
         (controlA\<lparr>ControlSettings.pressure := Fin 0\<rparr>) None)) \<noteq>
    num_div (num_mul (num_mul (literal 0.9) (Fin 3)) (Fin 3))
      (num_add
         (num_sub (num_add (Fin 212) (num_mul (Fin 0) (literal 1.7)))
            (num_add (num_mul (Fin 70) (literal 1.8)) (Fin 32)))
         (num_sub (Fin 970) (num_mul (Fin 0) (literal 0.5))))"
  by (simp add: stage_defs Let_def scenarioA_defs evals
      del: num_add.simps(1) num_sub.simps(1) num_mul.simps(1) num_div.simps(1))

text \<open>
  C3. For every input and every \<open>params.efficiency\<close> in \<open>[0, 1]\<close>, the waste heat is
  \<open>fuel.quantity * fuel.heatContent * (1 - params.efficiency)\<close>, while the heat that
  \<open>heatTransfer\<close> hands to the steam generation is \<open>fuel.quantity * fuel.heatContent * 0.9\<close>
  whatever the parameters, and the steam record is computed from that heat alone.
\<close>

theorem efficiency_split:
  assumes "BoilerParams.efficiency (case po of None \<Rightarrow> defaultParams | Some p \<Rightarrow> p) = Fin eff"
    and "0 \<le> eff" and "eff \<le> 1"
  shows "BoilerOutput.wasteHeat (boiler f w a e cs po) =
           num_mul (num_mul (Fuel.quantity f) (Fuel.heatContent f)) (num_sub (Fin 1) (Fin eff))
       \<and> HeatTransferResult.heatTransferred
           (heatTransfer (FurnaceResult.energy (furnace f a)) (FurnaceResult.flueGases (furnace f a))
              w tc c fd) =
           num_mul (num_mul (Fuel.quantity f) (Fuel.heatContent f)) (literal 0.9)
       \<and> BoilerOutput.steam (boiler f w a e cs po) =
           steamGeneration (num_mul (num_mul (Fuel.quantity f) (Fuel.heatContent f)) (literal 0.9))
             w cs pmin"
  using assms(1) by (simp add: stage_defs Let_def)

text \<open>
  At Scenario A the efficiency is the default \<open>0.9\<close>, the binary64 value
  \<open>8106479329266893 / 2^53\<close>.
\<close>

theorem efficiency_split_witness:
  "BoilerOutput.wasteHeat (boiler fuelA waterA airA (Fin 50) controlA None) =
     num_mul (num_mul (Fin 1000) (Fin 8000))
       (num_sub (Fin 1) (Fin (8106479329266893 / 9007199254740992)))
   \<and> BoilerOutput.steam (boiler fuelA waterA airA (Fin 50) controlA None) =
       steamGeneration (num_mul (num_mul (Fin 1000) (Fin 8000)) (literal 0.9))
         waterA controlA (Fin 15)"
proof -
  have h: "BoilerParams.efficiency (case None of None \<Rightarrow> defaultParams | Some p \<Rightarrow> p) =
      Fin (8106479329266893 / 9007199254740992)"
    by (simp add: defaultParams_def ev_lit_1)
  have lo: "(0::real) \<le> 8106479329266893 / 9007199254740992"
    and hi: "(8106479329266893 / 9007199254740992 :: real) \<le> 1"
    by simp_all
  from efficiency_split [OF h lo hi, of fuelA waterA airA "Fin 50" controlA _ _ _ "Fin 15"]
  show ?thesis
    by (simp add: fuelA_def del: num_sub.simps(1) num_mul.simps(1))
qed

text \<open>
  C4. For every input, the flue gases of the result have the volume
  \<open>air.quantity * 0.9\<close>, the temperature \<open>180\<close> and the composition CO2 10, H2O 15, O2 5,
  N2 70, and the emissions are CO 100, NOx 50.
\<close>

theorem flue_gases_and_emissions_fixed:
  "BoilerOutput.flueGases (boiler f w a e cs po) =
     \<lparr> FlueGases.volume = num_mul (Air.quantity a) (literal 0.9), FlueGases.temp = Fin 180,
       FlueGases.composition =
         [(''CO2'', Fin 10), (''H2O'', Fin 15), (''O2'', Fin 5), (''N2'', Fin 70)] \<rparr>
   \<and> BoilerOutput.emissions (boiler f w a e cs po) = [(''CO'', Fin 100), (''NOx'', Fin 50)]"
  by (simp add: stage_defs Let_def)

text \<open>
  C6. Two calls whose \<open>params\<close> differ only in \<open>tubeConfig\<close>, \<open>furnaceDesign\<close>,
  \<open>heatTransferCoeff\<close>, \<open>refractory\<close>, \<open>horsepower\<close>, \<open>steamOutput\<close> and
  \<open>pressure.max\<close> return equal results: overwriting these seven fields of any \<open>params\<close>
  changes nothing, and overwriting them in the default parameters gives the result of the
  call that omits \<open>params\<close>.
\<close>

theorem dead_params:
  "boiler f w a e cs
     (Some (p\<lparr>BoilerParams.tubeConfig := tc, BoilerParams.furnaceDesign := fd,
              BoilerParams.heatTransferCoeff := c, BoilerParams.refractory := r,
              BoilerParams.horsepower := hp, BoilerParams.steamOutput := so,
              BoilerParams.pressure := (BoilerParams.pressure p)\<lparr>MinMax.max_bound := m\<rparr>\<rparr>)) =
   boiler f w a e cs (Some p)
   \<and> boiler f w a e cs
     (Some (defaultParams\<lparr>BoilerParams.tubeConfig := tc, BoilerParams.furnaceDesign := fd,
              BoilerParams.heatTransferCoeff := c, BoilerParams.refractory := r,
              BoilerParams.horsepower := hp, BoilerParams.steamOutput := so,
              BoilerParams.pressure :=
                (BoilerParams.pressure defaultParams)\<lparr>MinMax.max_bound := m\<rparr>\<rparr>)) =
   boiler f w a e cs None"
  by (simp add: stage_defs Let_def)

text \<open>
  C7, as amended. \<open>params.pressure.min\<close> does not affect the result: two calls that differ
  only in it return equal results. \<open>boiler\<close> passes it to \<open>steamGeneration\<close> as its fourth
  argument, which the body never reads.
\<close>

theorem pressure_min_unused:
  "boiler f w a e cs
     (Some (p\<lparr>BoilerParams.pressure := (BoilerParams.pressure p)\<lparr>MinMax.min_bound := m\<rparr>\<rparr>)) =
   boiler f w a e cs (Some p)
   \<and> boiler f w a e cs
     (Some (defaultParams\<lparr>BoilerParams.pressure :=
         (BoilerParams.pressure defaultParams)\<lparr>MinMax.min_bound := m\<rparr>\<rparr>)) =
   boiler f w a e cs None"
  by (simp add: stage_defs Let_def)

text \<open>No two calls that differ only in \<open>params.pressure.min\<close> return different results.\<close>

theorem pressure_min_affects_counterexample:
  "\<not> (\<exists>f w a e cs p m.
        boiler f w a e cs
          (Some (p\<lparr>BoilerParams.pressure := (BoilerParams.pressure p)\<lparr>MinMax.min_bound := m\<rparr>\<rparr>)) \<noteq>
        boiler f w a e cs (Some p))"
  by (simp add: stage_defs Let_def)

text \<open>
  C10. Two calls that differ only in \<open>electricity\<close>, \<open>air.temperature\<close>,
  \<open>water.quantity\<close> and \<open>controlSettings.temperature\<close> return equal results.
\<close>

theorem unused_inputs:
  "boiler f (w\<lparr>Water.quantity := wq\<rparr>) (a\<lparr>Air.temperature := atemp\<rparr>) e
     (cs\<lparr>ControlSettings.temperature := ct\<rparr>) po =
   boiler f (w\<lparr>Water.quantity := wq'\<rparr>) (a\<lparr>Air.temperature := atemp'\<rparr>) e'
     (cs\<lparr>ControlSettings.temperature := ct'\<rparr>) po"
  by (simp add: stage_defs Let_def)







text \<open>
  Each condition of the amended statement is needed: a negative energy, a negative air
  quantity, a negative target pressure, an efficiency above one, a zero divisor under a
  zero energy, and an infinite energy under an efficiency of one each give a field that
  is negative or \<open>NaN\<close>. And under the conditions a field can be \<open>Infinity\<close>: with an
  energy of \<open>2^1023\<close> and an efficiency of \<open>-1\<close> the waste heat overflows.
\<close>

lemma nonneg_needs_each_condition:
  "\<not> nonneg_num (BoilerOutput.wasteHeat
       (boiler (fuelA\<lparr>Fuel.quantity := Fin (- 1000)\<rparr>) waterA airA (Fin 50) controlA None))"
  "\<not> nonneg_num (FlueGases.volume (BoilerOutput.flueGases
       (boiler fuelA waterA (airA\<lparr>Air.quantity := Fin (- 12000)\<rparr>) (Fin 50) controlA None)))"
  "\<not> nonneg_num (Steam.pressure (BoilerOutput.steam
       (boiler fuelA waterA airA (Fin 50) (controlA\<lparr>ControlSettings.pressure := Fin (- 1)\<rparr>) None)))"
  "\<not> nonneg_num (BoilerOutput.wasteHeat
       (boiler fuelA waterA airA (Fin 50) controlA
          (Some (defaultParams\<lparr>BoilerParams.efficiency := Fin (3 / 2)\<rparr>))))"
  "\<not> nonneg_num (Steam.flowRate (BoilerOutput.steam
       (boiler (fuelA\<lparr>Fuel.quantity := Fin 0\<rparr>)
          (waterA\<lparr>Water.temperature := Fin (2809863048760889 / 2 ^ 42)\<rparr>) airA (Fin 50)
          (controlA\<lparr>ControlSettings.pressure := Fin 0\<rparr>) None)))"
  "\<not> nonneg_num (BoilerOutput.wasteHeat
       (boiler (fuelA\<lparr>Fuel.quantity := Fin (2 ^ 600), Fuel.heatContent := Fin (2 ^ 600)\<rparr>)
          waterA airA (Fin 50) controlA
          (Some (defaultParams\<lparr>BoilerParams.efficiency := Fin 1\<rparr>))))"
  "BoilerOutput.wasteHeat
       (boiler (fuelA\<lparr>Fuel.quantity := Fin (2 ^ 1000), Fuel.heatContent := Fin (2 ^ 23)\<rparr>)
          waterA airA (Fin 50) controlA
          (Some (defaultParams\<lparr>BoilerParams.efficiency := Fin (- 1)\<rparr>))) = PInf"
  by (simp_all add: stage_defs Let_def scenarioA_defs evals signed_inf_def
      del: num_add.simps(1) num_sub.simps(1) num_mul.simps(1) num_div.simps(1))

text \<open>
  A zero divisor. With a target pressure of \<open>0\<close> and water at \<open>638.8888888888889\<close>, the
  binary64 value \<open>2809863048760889 / 2^42\<close>, the sensible heat is \<open>-970\<close> and the latent heat
  \<open>970\<close>: the division is performed and the flow rate of Scenario A's fuel is \<open>Infinity\<close>.
  A flow rate over a zero divisor is always an infinity or \<open>NaN\<close>.
\<close>

lemma zero_divisor_flow_rate:
  "Steam.flowRate (BoilerOutput.steam
     (boiler fuelA (waterA\<lparr>Water.temperature := Fin (2809863048760889 / 2 ^ 42)\<rparr>) airA (Fin 50)
        (controlA\<lparr>ControlSettings.pressure := Fin 0\<rparr>) None)) = PInf"
  by (simp add: stage_defs Let_def scenarioA_defs evals signed_inf_def
      del: num_add.simps(1) num_sub.simps(1) num_mul.simps(1) num_div.simps(1))

lemma num_div_zero: "num_div x (Fin 0) \<in> {PInf, NInf, NaN}"
  by (cases x) (auto simp: signed_inf_def)

end
